theory Spec2Isabelle
  imports Main
begin

section \<open>Python values used by pymegablast\<close>

text \<open>
  The program is Python 2: a \<open>str\<close> is a byte string, modelled as \<^typ>\<open>string\<close>;
  Python integers are unbounded, modelled as \<^typ>\<open>int\<close>.  Exceptions are values:
  every function that can raise returns \<open>exception + 'a\<close>, \<open>Inl\<close> carrying the
  exception.
\<close>

datatype exception =
    ProgramError string
  | IndexError
  | IOError
  | OSError
  | CalledProcessError
  | ShutilError
  | KeyboardInterrupt

abbreviation tab :: char where
  "tab \<equiv> CHR 0x09"

abbreviation newline :: char where
  "newline \<equiv> CHR 0x0A"

subsection \<open>String methods\<close>

text \<open>\<open>s.startswith(p)\<close>.\<close>

definition startswith :: "string \<Rightarrow> string \<Rightarrow> bool" where
  "startswith s p = (take (length p) s = p)"

text \<open>
  \<open>s.split(sep)\<close> for a separator of one character, the only use the program makes
  of it (\<open>"\t"\<close> and \<open>"\n"\<close>): the fields between the separators, empty fields kept.
\<close>

fun split :: "string \<Rightarrow> char \<Rightarrow> string list" where
  "split [] sep = [[]]"
| "split (c # cs) sep =
     (if c = sep then [] # split cs sep
      else (case split cs sep of
              [] \<Rightarrow> [[c]]
            | f # fs \<Rightarrow> (c # f) # fs))"

text \<open>\<open>sep.join(xs)\<close>.\<close>

fun join :: "string \<Rightarrow> string list \<Rightarrow> string" where
  "join sep [] = []"
| "join sep [x] = x"
| "join sep (x # y # ys) = x @ sep @ join sep (y # ys)"

text \<open>\<open>xs[0]\<close>: raises \<open>IndexError\<close> on an empty list.\<close>

definition index0 :: "'a list \<Rightarrow> exception + 'a" where
  "index0 xs = (case xs of [] \<Rightarrow> Inl IndexError | x # _ \<Rightarrow> Inr x)"

text \<open>\<open>str(n)\<close> and \<open>"{}".format(n)\<close> for an integer: its decimal digits, with a
  leading minus sign when negative.\<close>

definition digit :: "nat \<Rightarrow> char" where
  "digit d = char_of (48 + d)"

fun str_nat :: "nat \<Rightarrow> string" where
  "str_nat n = (if n < 10 then [digit n] else str_nat (n div 10) @ [digit (n mod 10)])"

declare str_nat.simps [simp del]

definition str :: "int \<Rightarrow> string" where
  "str i = (if i < 0 then CHR ''-'' # str_nat (nat (- i)) else str_nat (nat i))"

text \<open>\<open>print >>f, line\<close>: the line and a newline are appended to the file's content.\<close>

definition print_to :: "string \<Rightarrow> string \<Rightarrow> string" where
  "print_to f line = f @ line @ [newline]"

subsection \<open>collections.Counter\<close>

text \<open>
  A \<open>Counter\<close> is a dictionary from keys to integer counts.  \<open>Counter(xs)\<close> adds one
  to the count of every element of \<open>xs\<close> in turn; \<open>c[k]\<close> is the stored count, and
  0 for a key that was never counted (\<open>Counter.__missing__\<close>).
\<close>

type_synonym counter = "string \<rightharpoonup> int"

definition counter_get :: "counter \<Rightarrow> string \<Rightarrow> int" where
  "counter_get c k = (case c k of None \<Rightarrow> 0 | Some n \<Rightarrow> n)"

definition counter_add :: "counter \<Rightarrow> string \<Rightarrow> counter" where
  "counter_add c k = c(k \<mapsto> counter_get c k + 1)"

fun counter_update :: "counter \<Rightarrow> string list \<Rightarrow> counter" where
  "counter_update c [] = c"
| "counter_update c (k # ks) = counter_update (counter_add c k) ks"

definition Counter :: "string list \<Rightarrow> counter" where
  "Counter ks = counter_update Map.empty ks"

section \<open>The Result Aggregator: \<open>parse_results\<close>\<close>

text \<open>
  \<^verbatim>\<open>
  while results[0].startswith("#"):
      del results[0]
  counter = Counter([i.split("\t")[0] for i in results])
  return counter
  \<close>
  The loop reads \<open>results[0]\<close> before every test, so it raises \<open>IndexError\<close> as soon
  as the list is empty.
\<close>

fun strip_comments :: "string list \<Rightarrow> exception + string list" where
  "strip_comments [] = Inl IndexError"
| "strip_comments (l # ls) =
     (if startswith l ''#'' then strip_comments ls else Inr (l # ls))"

text \<open>The list comprehension \<open>[i.split("\t")[0] for i in results]\<close>.\<close>

fun first_fields :: "string list \<Rightarrow> exception + string list" where
  "first_fields [] = Inr []"
| "first_fields (i # rest) =
     (case index0 (split i tab) of
        Inl e \<Rightarrow> Inl e
      | Inr f \<Rightarrow> (case first_fields rest of
                    Inl e \<Rightarrow> Inl e
                  | Inr fs \<Rightarrow> Inr (f # fs)))"

definition parse_results :: "string list \<Rightarrow> exception + counter" where
  "parse_results results =
     (case strip_comments results of
        Inl e \<Rightarrow> Inl e
      | Inr results' \<Rightarrow>
          (case first_fields results' of
             Inl e \<Rightarrow> Inl e
           | Inr ids \<Rightarrow> Inr (Counter ids)))"

section \<open>Sequence records and the Sequence Windower: \<open>split_fasta_sequences\<close>\<close>

text \<open>
  A record as \<open>Bio.SeqIO\<close> reads it from a FASTA file: identifier (\<open>seq.id\<close>), name,
  description and residue string (\<open>str(seq.seq)\<close>).  \<open>len(seq)\<close> is the length of
  the residue string.
\<close>

record SeqRecord =
  seq_id :: string
  seq_name :: string
  description :: string
  seq :: string

definition len :: "SeqRecord \<Rightarrow> int" where
  "len s = int (length (seq s))"

text \<open>
  Python's slice \<open>xs[i:j]\<close> for integers \<open>i\<close>, \<open>j\<close>: a negative index counts from
  the end, and both ends are clamped to the list.
\<close>

definition slice_index :: "int \<Rightarrow> int \<Rightarrow> nat" where
  "slice_index n i = nat (if i < 0 then max (n + i) 0 else min i n)"

definition slice :: "'a list \<Rightarrow> int \<Rightarrow> int \<Rightarrow> 'a list" where
  "slice xs i j =
     (let n = int (length xs); a = slice_index n i; b = slice_index n j
      in take (b - a) (drop a xs))"

text \<open>\<open>seq[i:j]\<close> on a record: a new record with the residues sliced and the
  identifier, name and description of the original.\<close>

definition getslice :: "SeqRecord \<Rightarrow> int \<Rightarrow> int \<Rightarrow> SeqRecord" where
  "getslice s i j = s\<lparr>seq := slice (seq s) i j\<rparr>"

text \<open>\<open>xrange(a, b)\<close>: the integers from \<open>a\<close> up to \<open>b - 1\<close>.\<close>

definition xrange :: "int \<Rightarrow> int \<Rightarrow> int list" where
  "xrange a b = [a..b - 1]"

text \<open>
  The body of the inner loop, for start position \<open>i\<close> and the counter value \<open>nb\<close>
  it has after \<open>nb += 1\<close>:
  \<^verbatim>\<open>
  sequences.append(seq[i:i+window_length])
  sequences[-1].id = sequences[-1].id + "_{}".format(nb)
  sequences[-1].description = "{}, window {}".format(sequences[-1].description, nb)
  \<close>
\<close>

definition make_window :: "SeqRecord \<Rightarrow> int \<Rightarrow> int \<Rightarrow> int \<Rightarrow> SeqRecord" where
  "make_window s window_length i nb =
     (let r = getslice s i (i + window_length);
          r = r\<lparr>seq_id := seq_id r @ ''_'' @ str nb\<rparr>
      in r\<lparr>description := description r @ '', window '' @ str nb\<rparr>)"

text \<open>The inner loop \<open>for i in xrange(...)\<close>, on the state \<open>(nb, sequences)\<close>.\<close>

fun window_loop ::
  "SeqRecord \<Rightarrow> int \<Rightarrow> int list \<Rightarrow> int \<times> SeqRecord list \<Rightarrow> int \<times> SeqRecord list" where
  "window_loop s window_length [] (nb, sequences) = (nb, sequences)"
| "window_loop s window_length (i # rest) (nb, sequences) =
     window_loop s window_length rest
       (nb + 1, sequences @ [make_window s window_length i (nb + 1)])"

text \<open>The outer loop \<open>for seq in SeqIO.parse(...)\<close>, on the state \<open>sequences\<close>.\<close>

fun split_loop :: "int \<Rightarrow> SeqRecord list \<Rightarrow> SeqRecord list \<Rightarrow> SeqRecord list" where
  "split_loop window_length [] sequences = sequences"
| "split_loop window_length (s # rest) sequences =
     (if len s \<le> window_length
      then split_loop window_length rest (sequences @ [s])
      else split_loop window_length rest
             (snd (window_loop s window_length
                     (xrange 0 (len s - window_length + 1)) (0, sequences))))"

section \<open>The file system, the FASTA library and the external tool\<close>

text \<open>
  The world the program runs in: the content of every regular file, the set of
  directories, and the set of paths that cannot be opened for writing or created
  (\<open>open(p, "w")\<close> and \<open>os.mkdir(p)\<close> fail there).  Paths are compared as strings.
  What the program prints to its standard output is not modelled.
\<close>

record world =
  files :: "string \<rightharpoonup> string"
  dirs :: "string set"
  unwritable :: "string set"

text \<open>
  Code the repository calls but does not contain is a parameter: the FASTA reader and
  writer of \<open>Bio.SeqIO\<close>, and the run of the external tool by
  \<open>subprocess.check_output\<close>, which gives the tool's standard output or raises.
\<close>

record env =
  parse_fasta :: "string \<Rightarrow> SeqRecord list"
  write_fasta :: "SeqRecord list \<Rightarrow> string"
  check_output :: "string list \<Rightarrow> world \<Rightarrow> exception + string"

text \<open>A stateful call gives its result or exception, and the world as it leaves it.\<close>

type_synonym 'a result = "(exception + 'a) \<times> world"

definition isfile :: "world \<Rightarrow> string \<Rightarrow> bool" where
  "isfile w p = (p \<in> dom (files w))"

definition isdir :: "world \<Rightarrow> string \<Rightarrow> bool" where
  "isdir w p = (p \<in> dirs w)"

text \<open>\<open>os.path.join(a, b)\<close> (POSIX).\<close>

definition path_join :: "string \<Rightarrow> string \<Rightarrow> string" where
  "path_join a b =
     (if startswith b ''/'' then b
      else if a = [] \<or> last a = CHR ''/'' then a @ b
      else a @ ''/'' @ b)"

definition mkdir :: "world \<Rightarrow> string \<Rightarrow> unit result" where
  "mkdir w p =
     (if isdir w p \<or> isfile w p \<or> p \<in> unwritable w then (Inl OSError, w)
      else (Inr (), w\<lparr>dirs := insert p (dirs w)\<rparr>))"

text \<open>\<open>shutil.copyfile(src, dst)\<close>: refuses to copy a file onto itself, then reads
  \<open>src\<close> and writes its bytes to \<open>dst\<close>.\<close>

definition copyfile :: "world \<Rightarrow> string \<Rightarrow> string \<Rightarrow> unit result" where
  "copyfile w src dst =
     (if src = dst then (Inl ShutilError, w)
      else (case files w src of
              None \<Rightarrow> (Inl IOError, w)
            | Some content \<Rightarrow>
                if dst \<in> unwritable w then (Inl IOError, w)
                else (Inr (), w\<lparr>files := (files w)(dst \<mapsto> content)\<rparr>)))"

definition split_fasta_sequences ::
  "env \<Rightarrow> world \<Rightarrow> string \<Rightarrow> int \<Rightarrow> string \<Rightarrow> unit result" where
  "split_fasta_sequences e w input_file window_length output_file =
     (case files w input_file of
        None \<Rightarrow> (Inl IOError, w)
      | Some content \<Rightarrow>
          (let sequences = split_loop window_length (parse_fasta e content) []
           in if output_file \<in> unwritable w then (Inl IOError, w)
              else (Inr (),
                    w\<lparr>files := (files w)(output_file \<mapsto> write_fasta e sequences)\<rparr>)))"

section \<open>The Search Invoker: \<open>run_megablast\<close>\<close>

text \<open>The options of the command line, as \<open>argparse\<close> returns them.\<close>

record Namespace =
  input :: string
  window :: bool
  window_length :: int
  database :: string
  word_size :: int
  minimal_hit_score :: int
  output_dir :: string

text \<open>The argument list given to \<open>check_output\<close>.\<close>

definition megablast_command :: "string \<Rightarrow> Namespace \<Rightarrow> string list" where
  "megablast_command sequence_file options =
     [''megablast'',
      ''-d'', database options,
      ''-i'', sequence_file,
      ''-D 3'',
      ''-W'', str (word_size options),
      ''-s'', str (minimal_hit_score options)]"

text \<open>The loop \<open>for line in output: print >>o_file, line\<close>.\<close>

fun write_lines :: "string list \<Rightarrow> string \<Rightarrow> string" where
  "write_lines [] o_file = o_file"
| "write_lines (line # rest) o_file = write_lines rest (print_to o_file line)"

definition run_megablast ::
  "env \<Rightarrow> world \<Rightarrow> string \<Rightarrow> string \<Rightarrow> Namespace \<Rightarrow> string list result" where
  "run_megablast e w sequence_file output_directory options =
     (case check_output e (megablast_command sequence_file options) w of
        Inl OSError \<Rightarrow> (Inl (ProgramError ''megablast: command not found''), w)
      | Inl CalledProcessError \<Rightarrow>
          (Inl (ProgramError ''megablast: problem with megablast''), w)
      | Inl ex \<Rightarrow> (Inl ex, w)
      | Inr out \<Rightarrow>
          (let output = split out newline;
               path = path_join output_directory ''megablast_results.txt''
           in if path \<in> unwritable w
              then (Inl (ProgramError (''can'' @ [CHR 0x27] @ ''t write file to ''
                                        @ output_directory)), w)
              else (Inr output,
                    w\<lparr>files := (files w)(path \<mapsto> write_lines output [])\<rparr>)))"

section \<open>The Final Report Generator: \<open>generate_final_output\<close>\<close>

text \<open>
  The loop
  \<^verbatim>\<open>
  for seq in SeqIO.parse(sequence_file, "fasta"):
      print >>o_file, "\t".join([seq.id, str(seq.seq), str(results[seq.id])])
  \<close>
\<close>

fun report_loop :: "counter \<Rightarrow> SeqRecord list \<Rightarrow> string \<Rightarrow> string" where
  "report_loop results [] o_file = o_file"
| "report_loop results (s # rest) o_file =
     report_loop results rest
       (print_to o_file
          (join [tab] [seq_id s, seq s, str (counter_get results (seq_id s))]))"

definition generate_final_output ::
  "env \<Rightarrow> world \<Rightarrow> counter \<Rightarrow> string \<Rightarrow> string \<Rightarrow> unit result" where
  "generate_final_output e w results sequence_file output_directory =
     (let path = path_join output_directory ''final_report.txt''
      in if path \<in> unwritable w
         then (Inl (ProgramError (''can'' @ [CHR 0x27] @ ''t write to ''
                                   @ output_directory)), w)
         else (let w1 = w\<lparr>files := (files w)(path \<mapsto> [])\<rparr>
               in case files w1 sequence_file of
                    None \<Rightarrow> (Inl IOError, w1)
                  | Some content \<Rightarrow>
                      (Inr (),
                       w1\<lparr>files := (files w1)
                             (path \<mapsto> report_loop results (parse_fasta e content) [])\<rparr>)))"

section \<open>Argument validation and the main function\<close>

definition check_args :: "world \<Rightarrow> Namespace \<Rightarrow> exception + bool" where
  "check_args w args =
     (if \<not> isfile w (input args)
      then Inl (ProgramError (input args @ '': no such file''))
      else if window args
      then (if window_length args < 0
            then Inl (ProgramError (''window size: invalid value ''
                                     @ str (window_length args)))
            else Inr True)
      else Inr True)"

text \<open>
  How a run of \<open>main\<close> ends: it returns; or \<open>KeyboardInterrupt\<close> is caught and the
  program exits with status 0; or \<open>ProgramError\<close> is caught and \<open>parser.error\<close> ends
  the program with the message; or another exception leaves \<open>main\<close> uncaught.
\<close>

datatype outcome =
    Finished
  | Cancelled
  | ParserError string
  | Uncaught exception

text \<open>The \<open>except\<close> clauses of \<open>main\<close>.\<close>

fun except_clauses :: "exception \<Rightarrow> outcome" where
  "except_clauses KeyboardInterrupt = Cancelled"
| "except_clauses (ProgramError message) = ParserError message"
| "except_clauses ex = Uncaught ex"

text \<open>The path of the intermediate sequence file.\<close>

definition sequence_file_of :: "Namespace \<Rightarrow> string" where
  "sequence_file_of args = path_join (output_dir args) ''megablast_input.fasta''"

text \<open>
  \<^verbatim>\<open>
  if args.window:
      split_fasta_sequences(args.input, args.window_length, sequence_file)
  else:
      shutil.copyfile(args.input, sequence_file)
  \<close>
\<close>

definition prepare_sequence_file :: "env \<Rightarrow> world \<Rightarrow> Namespace \<Rightarrow> unit result" where
  "prepare_sequence_file e w args =
     (if window args
      then split_fasta_sequences e w (input args) (window_length args)
             (sequence_file_of args)
      else copyfile w (input args) (sequence_file_of args))"

text \<open>The body of the \<open>try\<close> block, after the options are parsed.\<close>

definition main_try :: "env \<Rightarrow> world \<Rightarrow> Namespace \<Rightarrow> unit result" where
  "main_try e w args =
     (case check_args w args of
        Inl ex \<Rightarrow> (Inl ex, w)
      | Inr _ \<Rightarrow>
     (case (if \<not> isdir w (output_dir args) then mkdir w (output_dir args)
            else (Inr (), w)) of
        (Inl ex, w1) \<Rightarrow> (Inl ex, w1)
      | (Inr _, w1) \<Rightarrow>
     (case prepare_sequence_file e w1 args of
        (Inl ex, w2) \<Rightarrow> (Inl ex, w2)
      | (Inr _, w2) \<Rightarrow>
     (case run_megablast e w2 (sequence_file_of args) (output_dir args) args of
        (Inl ex, w3) \<Rightarrow> (Inl ex, w3)
      | (Inr results, w3) \<Rightarrow>
     (case parse_results results of
        Inl ex \<Rightarrow> (Inl ex, w3)
      | Inr counts \<Rightarrow>
          generate_final_output e w3 counts (sequence_file_of args)
            (output_dir args))))))"

definition main :: "env \<Rightarrow> world \<Rightarrow> Namespace \<Rightarrow> outcome \<times> world" where
  "main e w args =
     (case main_try e w args of
        (Inl ex, w') \<Rightarrow> (except_clauses ex, w')
      | (Inr _, w') \<Rightarrow> (Finished, w'))"

section \<open>Notions used to state the properties\<close>

text \<open>The first tab-separated field of a line: everything before its first tab.\<close>

definition first_field :: "string \<Rightarrow> string" where
  "first_field l = takeWhile (\<lambda>c. c \<noteq> tab) l"


text \<open>
  A run to evaluate the program on: the options are the defaults of \<open>parse_args\<close>
  with the input \<open>in.fasta\<close> and the output directory \<open>out\<close>, which exists; the FASTA
  reader gives the records \<open>rs\<close> and the external tool prints \<open>out\<close>.
\<close>

definition example_args :: Namespace where
  "example_args =
     \<lparr>input = ''in.fasta'', window = False, window_length = 20,
      database = ''/mnt/isi/reference/Genome_Build_37/chromosomes'',
      word_size = 10, minimal_hit_score = 17, output_dir = ''out''\<rparr>"

definition example_world :: world where
  "example_world =
     \<lparr>files = [''in.fasta'' \<mapsto> ''>seq1'' @ [newline] @ ''ACTGAC'' @ [newline]],
      dirs = {''out''}, unwritable = {}\<rparr>"

definition example_env :: "SeqRecord list \<Rightarrow> string \<Rightarrow> env" where
  "example_env rs out =
     \<lparr>parse_fasta = (\<lambda>content. rs), write_fasta = (\<lambda>sequences. []),
      check_output = (\<lambda>argv w. Inr out)\<rparr>"

section \<open>Properties of the Result Aggregator\<close>

lemma split_not_Nil: "split s sep \<noteq> []"
  by (induction s) (auto split: list.splits)

lemma index0_split: "index0 (split s sep) = Inr (takeWhile (\<lambda>c. c \<noteq> sep) s)"
proof (induction s)
  case Nil
  show ?case by (simp add: index0_def)
next
  case (Cons c cs)
  then show ?case
    using split_not_Nil [of cs sep]
    by (cases "split cs sep") (auto simp: index0_def)
qed

lemma first_fields_eq:
  "first_fields ls = Inr (map (takeWhile (\<lambda>c. c \<noteq> tab)) ls)"
  by (induction ls) (simp_all add: index0_split)

lemma strip_comments_dropWhile:
  "strip_comments ls =
     (case dropWhile (\<lambda>l. startswith l ''#'') ls of
        [] \<Rightarrow> Inl IndexError
      | r # rs \<Rightarrow> Inr (r # rs))"
  by (induction ls) simp_all

section \<open>Decimal rendering\<close>

lemma of_char_digit: "d < 10 \<Longrightarrow> (of_char (digit d) :: nat) = 48 + d"
  by (simp add: digit_def)


lemma digit_not_newline: "d < 10 \<Longrightarrow> digit d \<noteq> newline"
proof
  assume d: "d < 10" and "digit d = newline"
  then have "(of_char (digit d) :: nat) = of_char newline" by simp
  with d show False by (simp add: of_char_digit)
qed



lemma str_nat_digits: "c \<in> set (str_nat n) \<Longrightarrow> c \<in> digit ` {..<10}"
proof (induction n arbitrary: c rule: str_nat.induct)
  case (1 n)
  show ?case
  proof (cases "n < 10")
    case True
    with 1(2) show ?thesis
      by (subst (asm) str_nat.simps) auto
  next
    case False
    with 1 show ?thesis
      by (subst (asm) (2) str_nat.simps) auto
  qed
qed


lemma str_nat_no_newline: "newline \<notin> set (str_nat n)"
proof
  assume "newline \<in> set (str_nat n)"
  then have "newline \<in> digit ` {..<10}" by (rule str_nat_digits)
  then obtain d where d: "d < 10" and eq: "newline = digit d" by auto
  from digit_not_newline [OF d] eq show False by simp
qed


section \<open>The loops of the Sequence Windower\<close>

lemma window_loop_upto:
  "window_loop s w [i..j] (nb, acc) =
     (nb + int (length [i..j]), acc @ map (\<lambda>x. make_window s w x (nb + 1 + (x - i))) [i..j])"
proof (induction i j arbitrary: nb acc rule: upto.induct)
  case (1 i j)
  show ?case
  proof (cases "i \<le> j")
    case True
    then have u: "[i..j] = i # [i + 1..j]" by (simp add: upto_rec1)
    have "map (\<lambda>x. make_window s w x (nb + 1 + 1 + (x - (i + 1)))) [i + 1..j]
        = map (\<lambda>x. make_window s w x (nb + 1 + (x - i))) [i + 1..j]"
      by (rule map_cong) (auto simp: algebra_simps)
    with 1 [OF True] True show ?thesis
      by (simp add: u)
  next
    case False
    then show ?thesis by simp
  qed
qed

lemma split_loop_acc: "split_loop w xs acc = acc @ split_loop w xs []"
proof (induction xs arbitrary: acc)
  case Nil
  show ?case by simp
next
  case (Cons s xs)
  show ?case
    apply (simp add: xrange_def window_loop_upto)
    by (metis Cons.IH append.assoc append_Nil)
qed

lemma split_loop_Cons:
  "split_loop w (s # xs) [] = split_loop w [s] [] @ split_loop w xs []"
  using split_loop_acc [of w xs "[s]"]
    split_loop_acc [of w xs "snd (window_loop s w (xrange 0 (len s - w + 1)) (0, []))"]
  by simp

lemma split_loop_append:
  "split_loop w (xs @ ys) [] = split_loop w xs [] @ split_loop w ys []"
proof (induction xs)
  case Nil
  show ?case by simp
next
  case (Cons s xs)
  have "split_loop w ((s # xs) @ ys) [] = split_loop w [s] [] @ split_loop w (xs @ ys) []"
    using split_loop_Cons [of w s "xs @ ys"] by simp
  also have "\<dots> = split_loop w [s] [] @ split_loop w xs [] @ split_loop w ys []"
    using Cons by simp
  also have "\<dots> = split_loop w (s # xs) [] @ split_loop w ys []"
    using split_loop_Cons [of w s xs] by simp
  finally show ?case .
qed

lemma split_fasta_sequences_eq:
  "files w input_file = Some content \<Longrightarrow> output_file \<notin> unwritable w \<Longrightarrow>
   split_fasta_sequences e w input_file n output_file =
     (Inr (), w\<lparr>files := (files w)
        (output_file \<mapsto> write_fasta e (split_loop n (parse_fasta e content) []))\<rparr>)"
  by (simp add: split_fasta_sequences_def)






section \<open>Counting with \<open>Counter\<close>, and the comment prefix\<close>

lemma counter_get_add:
  "counter_get (counter_add c k') k = counter_get c k + (if k = k' then 1 else 0)"
  by (simp add: counter_add_def counter_get_def)

lemma counter_get_update:
  "counter_get (counter_update c ks) k = counter_get c k + int (count_list ks k)"
  by (induction ks arbitrary: c) (simp_all add: counter_get_add)

lemma dom_counter_update: "dom (counter_update c ks) = dom c \<union> set ks"
  by (induction ks arbitrary: c) (auto simp: counter_add_def)

lemma counter_get_Counter: "counter_get (Counter ks) k = int (count_list ks k)"
  using counter_get_update [of Map.empty ks k] by (simp add: Counter_def counter_get_def)

lemma dom_Counter: "dom (Counter ks) = set ks"
  by (simp add: Counter_def dom_counter_update)

lemma sum_Counter: "(\<Sum>k \<in> dom (Counter ks). counter_get (Counter ks) k) = int (length ks)"
proof -
  have "(\<Sum>k \<in> set ks. count_list ks k) = length ks"
    by (rule sum_count_set) simp_all
  then show ?thesis
    by (simp add: dom_Counter counter_get_Counter flip: of_nat_sum)
qed

lemma count_list_map_filter:
  "count_list (map f xs) k = length (filter (\<lambda>x. f x = k) xs)"
  by (induction xs) simp_all

lemma strip_comments_all:
  "list_all (\<lambda>l. startswith l ''#'') ls \<Longrightarrow> strip_comments ls = Inl IndexError"
  by (induction ls) simp_all

lemma strip_comments_some:
  "\<not> list_all (\<lambda>l. startswith l ''#'') ls \<Longrightarrow>
   strip_comments ls = Inr (dropWhile (\<lambda>l. startswith l ''#'') ls)"
  by (induction ls) simp_all

lemma parse_results_eq:
  "parse_results results =
     (if list_all (\<lambda>l. startswith l ''#'') results then Inl IndexError
      else Inr (Counter (map first_field (dropWhile (\<lambda>l. startswith l ''#'') results))))"
  by (simp add: parse_results_def strip_comments_all strip_comments_some first_fields_eq
      first_field_def [abs_def])

lemma dropWhile_not_all: "dropWhile P xs \<noteq> [] \<Longrightarrow> \<not> list_all P xs"
  by (induction xs) (auto split: if_splits)

section \<open>Window identifiers\<close>


section \<open>Lines written and lines read\<close>

lemma write_lines_eq:
  "write_lines ls o_file = o_file @ concat (map (\<lambda>line. line @ [newline]) ls)"
  by (induction ls arbitrary: o_file) (simp_all add: print_to_def)

lemma concat_split: "concat (map (\<lambda>line. line @ [sep]) (split s sep)) = s @ [sep]"
proof (induction s)
  case Nil
  show ?case by simp
next
  case (Cons c cs)
  obtain f fs where "split cs sep = f # fs"
    using split_not_Nil [of cs sep] by (cases "split cs sep") auto
  with Cons show ?case by auto
qed

lemma split_line:
  "sep \<notin> set l \<Longrightarrow> split (l @ sep # rest) sep = l # split rest sep"
proof (induction l)
  case Nil
  show ?case by simp
next
  case (Cons c cs)
  then show ?case by auto
qed

lemma split_lines:
  "list_all (\<lambda>l. sep \<notin> set l) ls \<Longrightarrow>
   split (concat (map (\<lambda>l. l @ [sep]) ls)) sep = ls @ [[]]"
  by (induction ls) (simp_all add: split_line)

lemma report_loop_eq:
  "report_loop results rs o_file =
     o_file @ concat (map (\<lambda>s. (seq_id s @ [tab] @ seq s @ [tab]
                                  @ str (counter_get results (seq_id s))) @ [newline]) rs)"
  by (induction rs arbitrary: o_file) (simp_all add: print_to_def)

lemma str_no_newline: "newline \<notin> set (str i)"
  by (simp add: str_def str_nat_no_newline)

lemma str_0: "str 0 = ''0''"
  by code_simp

section \<open>The stages of \<open>main\<close>\<close>

lemma main_check_args_fails:
  "check_args w args = Inl ex \<Longrightarrow> main e w args = (except_clauses ex, w)"
  by (simp add: main_def main_try_def)

lemma main_parse_results_fails:
  assumes "check_args w args = Inr b"
    and "(if \<not> isdir w (output_dir args) then mkdir w (output_dir args) else (Inr (), w))
           = (Inr (), w1)"
    and "prepare_sequence_file e w1 args = (Inr (), w2)"
    and "run_megablast e w2 (sequence_file_of args) (output_dir args) args = (Inr results, w3)"
    and "parse_results results = Inl ex"
  shows "main e w args = (except_clauses ex, w3)"
  using assms by (simp add: main_def main_try_def)

section \<open>The claims\<close>

subsection \<open>The Sequence Windower\<close>



text \<open>
  Claim C5.  A sequence whose length is at most the window length is passed through
  unchanged: the record itself, with its residue string, identifier and description,
  stands in the output between the output of the records before and after it.
\<close>

theorem windower_short_unchanged:
  assumes "len s \<le> w"
  shows "split_loop w (pre @ s # post) [] =
           split_loop w pre [] @ [s] @ split_loop w post []"
proof -
  have "split_loop w [s] [] = [s]" using assms by simp
  then show ?thesis
    using split_loop_append [of w pre "s # post"] split_loop_Cons [of w s post] by simp
qed

theorem windower_short_unchanged_witness:
  "split_loop 6
      [\<lparr>seq_id = ''seq1'', seq_name = ''seq1'', description = ''seq1'', seq = ''ACTGAC''\<rparr>] []
     = [\<lparr>seq_id = ''seq1'', seq_name = ''seq1'', description = ''seq1'', seq = ''ACTGAC''\<rparr>]"
proof -
  let ?s = "\<lparr>seq_id = ''seq1'', seq_name = ''seq1'', description = ''seq1'', seq = ''ACTGAC''\<rparr>"
  have h: "len ?s \<le> 6" by (simp add: len_def)
  from windower_short_unchanged [OF h, of "[]" "[]"] show ?thesis by simp
qed



subsection \<open>The Result Aggregator\<close>

text \<open>
  Claim C2, as the code has it.  Once the leading lines that start with \<open>#\<close> are
  dropped and a line is left, the count of an identifier is the number of all remaining
  lines whose first tab-separated field is that identifier; the identifiers counted are
  the first fields of the remaining lines; and the counts add up to the number of
  remaining lines.  Nothing is filtered after the prefix: an empty line, and a line
  that begins with a tab, is counted for the empty identifier.
\<close>

theorem parse_results_counts:
  assumes "dropWhile (\<lambda>l. startswith l ''#'') results = rest" and "rest \<noteq> []"
  shows "parse_results results = Inr (Counter (map first_field rest))
       \<and> (\<forall>k. counter_get (Counter (map first_field rest)) k =
                int (length (filter (\<lambda>l. first_field l = k) rest)))
       \<and> dom (Counter (map first_field rest)) = first_field ` set rest
       \<and> (\<Sum>k \<in> dom (Counter (map first_field rest)).
             counter_get (Counter (map first_field rest)) k) = int (length rest)
       \<and> counter_get (Counter (map first_field rest)) [] =
             int (length (filter (\<lambda>l. l = [] \<or> hd l = tab) rest))"
proof -
  from assms have "\<not> list_all (\<lambda>l. startswith l ''#'') results"
    using dropWhile_not_all by blast
  with assms(1) have p: "parse_results results = Inr (Counter (map first_field rest))"
    by (simp add: parse_results_eq)
  have c: "counter_get (Counter (map first_field rest)) k =
      int (length (filter (\<lambda>l. first_field l = k) rest))" for k
    by (simp add: counter_get_Counter count_list_map_filter)
  have d: "dom (Counter (map first_field rest)) = first_field ` set rest"
    by (simp add: dom_Counter)
  have s: "(\<Sum>k \<in> dom (Counter (map first_field rest)).
      counter_get (Counter (map first_field rest)) k) = int (length rest)"
    using sum_Counter [of "map first_field rest"] by simp
  have "(first_field l = []) = (l = [] \<or> hd l = tab)" for l
    by (cases l) (simp_all add: first_field_def)
  then have e: "counter_get (Counter (map first_field rest)) [] =
      int (length (filter (\<lambda>l. l = [] \<or> hd l = tab) rest))"
    by (simp add: c)
  from p c d s e show ?thesis by blast
qed

theorem parse_results_counts_witness:
  "parse_results [''# megablast'', ''q1'' @ [tab] @ ''chr1'', ''q1'' @ [tab] @ ''chr2'', '''']
     = Inr (Counter [''q1'', ''q1'', ''''])
   \<and> counter_get (Counter [''q1'', ''q1'', '''']) ''q1'' = 2
   \<and> counter_get (Counter [''q1'', ''q1'', '''']) '''' = 1"
proof -
  let ?results = "[''# megablast'', ''q1'' @ [tab] @ ''chr1'', ''q1'' @ [tab] @ ''chr2'', '''']"
  let ?rest = "[''q1'' @ [tab] @ ''chr1'', ''q1'' @ [tab] @ ''chr2'', '''']"
  have h1: "dropWhile (\<lambda>l. startswith l ''#'') ?results = ?rest"
    by (simp add: startswith_def)
  have h2: "?rest \<noteq> []" by simp
  from parse_results_counts [OF h1 h2]
  have "parse_results ?results = Inr (Counter (map first_field ?rest))"
    and "\<forall>k. counter_get (Counter (map first_field ?rest)) k =
           int (length (filter (\<lambda>l. first_field l = k) ?rest))"
    by blast+
  then show ?thesis
    by (simp add: first_field_def)
qed

text \<open>
  The claim as written fails on the output \<open>q1<tab>chr1<newline>\<close>, whose lines are
  the record and an empty line: the empty line is counted, for the empty identifier,
  and the counts add up to 2 where one line is neither empty nor a comment.
\<close>

theorem parse_results_counts_counterexample:
  "\<not> isl (parse_results (split (''q1'' @ [tab] @ ''chr1'' @ [newline]) newline))
   \<and> split (''q1'' @ [tab] @ ''chr1'' @ [newline]) newline = [''q1'' @ [tab] @ ''chr1'', '''']
   \<and> counter_get (projr (parse_results [''q1'' @ [tab] @ ''chr1'', ''''])) '''' = 1
   \<and> counter_get (projr (parse_results [''q1'' @ [tab] @ ''chr1'', ''''])) ''q1'' = 1
   \<and> dom (projr (parse_results [''q1'' @ [tab] @ ''chr1'', ''''])) = {''q1'', ''''}"
  by (simp add: parse_results_eq startswith_def first_field_def counter_get_Counter dom_Counter)


text \<open>
  Claim C9.  \<open>parse_results\<close> reads the first element of the list before every test of
  its loop: on a list that is empty or whose lines all start with \<open>#\<close> it raises
  \<open>IndexError\<close>, and on every other list it returns a counter.  The \<open>except\<close> clauses of
  \<open>main\<close> do not catch \<open>IndexError\<close>: when the lines that \<open>run_megablast\<close> returns
  are all comments, the exception leaves \<open>main\<close> as it is, not as the program's
  \<open>ProgramError\<close>.
\<close>

theorem parse_results_index_error:
  "parse_results results =
     (if list_all (\<lambda>l. startswith l ''#'') results then Inl IndexError
      else Inr (Counter (map first_field (dropWhile (\<lambda>l. startswith l ''#'') results))))
   \<and> except_clauses IndexError = Uncaught IndexError
   \<and> (check_args w args = Inr True
        \<and> (if \<not> isdir w (output_dir args) then mkdir w (output_dir args) else (Inr (), w))
              = (Inr (), w1)
        \<and> prepare_sequence_file e w1 args = (Inr (), w2)
        \<and> run_megablast e w2 (sequence_file_of args) (output_dir args) args
              = (Inr results, w3)
        \<and> list_all (\<lambda>l. startswith l ''#'') results
      \<longrightarrow> main e w args = (Uncaught IndexError, w3))"
proof -
  have p: "parse_results results =
     (if list_all (\<lambda>l. startswith l ''#'') results then Inl IndexError
      else Inr (Counter (map first_field (dropWhile (\<lambda>l. startswith l ''#'') results))))"
    by (rule parse_results_eq)
  have x: "except_clauses IndexError = Uncaught IndexError" by simp
  have m: "main e w args = (Uncaught IndexError, w3)"
    if "check_args w args = Inr True"
      and "(if \<not> isdir w (output_dir args) then mkdir w (output_dir args) else (Inr (), w))
              = (Inr (), w1)"
      and "prepare_sequence_file e w1 args = (Inr (), w2)"
      and "run_megablast e w2 (sequence_file_of args) (output_dir args) args = (Inr results, w3)"
      and "list_all (\<lambda>l. startswith l ''#'') results"
  proof -
    from that(5) have "parse_results results = Inl IndexError" by (simp add: p)
    from main_parse_results_fails [OF that(1-4) this] show ?thesis by simp
  qed
  from p x m show ?thesis by blast
qed

theorem parse_results_index_error_witness:
  "parse_results [] = Inl IndexError
   \<and> parse_results [''# no hits found''] = Inl IndexError
   \<and> fst (main (example_env [] ''# no hits found'') example_world example_args)
       = Uncaught IndexError"
proof -
  let ?e = "example_env [] ''# no hits found''"
  let ?w2 = "example_world\<lparr>files := (files example_world)
      (''out/megablast_input.fasta'' \<mapsto> ''>seq1'' @ [newline] @ ''ACTGAC'' @ [newline])\<rparr>"
  let ?w3 = "?w2\<lparr>files := (files ?w2)
      (''out/megablast_results.txt'' \<mapsto> ''# no hits found'' @ [newline])\<rparr>"
  have a: "check_args example_world example_args = Inr True"
    by (simp add: check_args_def example_world_def example_args_def isfile_def)
  have b: "(if \<not> isdir example_world (output_dir example_args)
            then mkdir example_world (output_dir example_args) else (Inr (), example_world))
           = (Inr (), example_world)"
    by (simp add: example_world_def example_args_def isdir_def)
  have s: "sequence_file_of example_args = ''out/megablast_input.fasta''"
    by (simp add: sequence_file_of_def example_args_def path_join_def startswith_def)
  have c: "prepare_sequence_file ?e example_world example_args = (Inr (), ?w2)"
    by (simp add: prepare_sequence_file_def s copyfile_def)
       (simp add: example_world_def example_args_def)
  have d: "run_megablast ?e ?w2 (sequence_file_of example_args) (output_dir example_args)
             example_args = (Inr [''# no hits found''], ?w3)"
    by (simp add: run_megablast_def example_env_def example_args_def path_join_def
        startswith_def)
       (simp add: example_world_def print_to_def)
  have l: "list_all (\<lambda>l. startswith l ''#'') [''# no hits found'']"
    by (simp add: startswith_def)
  have l0: "list_all (\<lambda>l. startswith l ''#'') []" by simp
  note T = parse_results_index_error [of "[''# no hits found'']" example_world example_args
      example_world ?e ?w2 ?w3]
  note T0 = parse_results_index_error [of "[]" example_world example_args
      example_world ?e ?w2 ?w3]
  from T a b c d l
  have "main ?e example_world example_args = (Uncaught IndexError, ?w3)" by blast
  moreover from T l have "parse_results [''# no hits found''] = Inl IndexError" by simp
  moreover from T0 l0 have "parse_results [] = Inl IndexError" by simp
  ultimately show ?thesis by simp
qed

subsection \<open>Argument validation and the choice between splitting and copying\<close>



text \<open>
  Claim C4, as the code has it.  When windowing is requested, \<open>check_args\<close> raises the
  program's error for every negative window length, and \<open>main\<close> ends with that message
  before anything is written, the windower included; a window length of zero or more
  passes the check when the input path names a file.
\<close>

theorem check_args_window_length:
  assumes "window args"
  shows "(window_length args < 0 \<longrightarrow>
            (\<exists>message. check_args w args = Inl (ProgramError message)
                     \<and> main e w args = (ParserError message, w)))
       \<and> (isfile w (input args) \<longrightarrow>
            check_args w args =
              (if window_length args < 0
               then Inl (ProgramError (''window size: invalid value ''
                                        @ str (window_length args)))
               else Inr True))"
proof -
  have neg: "\<exists>message. check_args w args = Inl (ProgramError message)
      \<and> main e w args = (ParserError message, w)" if "window_length args < 0"
  proof (cases "isfile w (input args)")
    case True
    with assms that have "check_args w args =
        Inl (ProgramError (''window size: invalid value '' @ str (window_length args)))"
      by (simp add: check_args_def)
    from this main_check_args_fails [OF this, of e] show ?thesis by simp
  next
    case False
    then have "check_args w args = Inl (ProgramError (input args @ '': no such file''))"
      by (simp add: check_args_def)
    from this main_check_args_fails [OF this, of e] show ?thesis by simp
  qed
  have ok: "check_args w args =
      (if window_length args < 0
       then Inl (ProgramError (''window size: invalid value '' @ str (window_length args)))
       else Inr True)" if "isfile w (input args)"
    using assms that by (simp add: check_args_def)
  from neg ok show ?thesis by blast
qed

theorem check_args_window_length_witness:
  "check_args example_world (example_args\<lparr>window := True, window_length := - 1\<rparr>)
     = Inl (ProgramError ''window size: invalid value -1'')
   \<and> main (example_env [] []) example_world
        (example_args\<lparr>window := True, window_length := - 1\<rparr>)
     = (ParserError ''window size: invalid value -1'', example_world)"
proof -
  let ?args = "example_args\<lparr>window := True, window_length := - 1\<rparr>"
  have h: "window ?args" by simp
  have f: "isfile example_world (input ?args)"
    by (simp add: isfile_def example_world_def example_args_def)
  have n: "window_length ?args < 0" by simp
  have m: "str (- 1) = ''-1''" by code_simp
  note T = check_args_window_length [OF h, of "example_world" "example_env [] []"]
  from T f n m have c: "check_args example_world ?args
      = Inl (ProgramError ''window size: invalid value -1'')"
    by simp
  from T n obtain message where
    "check_args example_world ?args = Inl (ProgramError message)"
    "main (example_env [] []) example_world ?args = (ParserError message, example_world)"
    by blast
  with c show ?thesis by simp
qed

text \<open>
  The claim as written fails for the window length 0 with \<open>--window\<close>: \<open>check_args\<close>
  returns \<open>True\<close>, and \<open>main\<close> calls the windower, which turns a sequence of six
  residues into seven empty windows.
\<close>

theorem check_args_window_length_counterexample:
  "check_args example_world (example_args\<lparr>window := True, window_length := 0\<rparr>) = Inr True
   \<and> prepare_sequence_file (example_env [] []) example_world
         (example_args\<lparr>window := True, window_length := 0\<rparr>)
       = split_fasta_sequences (example_env [] []) example_world
           ''in.fasta'' 0 ''out/megablast_input.fasta''
   \<and> map seq (split_loop 0
        [\<lparr>seq_id = ''seq1'', seq_name = ''seq1'', description = ''seq1'', seq = ''ACTGAC''\<rparr>] [])
       = ['''', '''', '''', '''', '''', '''', '''']"
proof -
  have "prepare_sequence_file (example_env [] []) example_world
         (example_args\<lparr>window := True, window_length := 0\<rparr>)
       = split_fasta_sequences (example_env [] []) example_world
           ''in.fasta'' 0 ''out/megablast_input.fasta''"
    by (simp add: prepare_sequence_file_def sequence_file_of_def path_join_def startswith_def
        example_args_def)
  moreover
  have "check_args example_world (example_args\<lparr>window := True, window_length := 0\<rparr>)
      = Inr True"
    by (simp add: check_args_def isfile_def example_world_def example_args_def)
  moreover have "map seq (split_loop 0
        [\<lparr>seq_id = ''seq1'', seq_name = ''seq1'', description = ''seq1'', seq = ''ACTGAC''\<rparr>] [])
       = ['''', '''', '''', '''', '''', '''', '''']"
    by code_simp
  ultimately show ?thesis by simp
qed

subsection \<open>The Search Invoker\<close>

text \<open>
  Claim C7, as the code has it.  When the tool succeeds and the results file can be
  written, \<open>run_megablast\<close> returns the tool's standard output split at every newline,
  and writes each of these lines followed by a newline to \<open>megablast_results.txt\<close> in the
  output directory: the lines written are the lines returned, and the file holds the
  tool's output followed by one more newline.
\<close>

theorem run_megablast_output:
  assumes "check_output e (megablast_command sequence_file options) w = Inr out"
    and "path_join output_directory ''megablast_results.txt'' \<notin> unwritable w"
  shows "run_megablast e w sequence_file output_directory options =
           (Inr (split out newline),
            w\<lparr>files := (files w)
                 (path_join output_directory ''megablast_results.txt'' \<mapsto> out @ [newline])\<rparr>)
       \<and> out @ [newline] = concat (map (\<lambda>line. line @ [newline]) (split out newline))"
  using assms by (simp add: run_megablast_def write_lines_eq concat_split)

theorem run_megablast_output_witness:
  "run_megablast (example_env [] (''q1'' @ [tab] @ ''chr1'' @ [newline])) example_world
     ''out/megablast_input.fasta'' ''out'' example_args =
     (Inr [''q1'' @ [tab] @ ''chr1'', ''''],
      example_world\<lparr>files := (files example_world)
        (''out/megablast_results.txt'' \<mapsto> ''q1'' @ [tab] @ ''chr1'' @ [newline, newline])\<rparr>)"
proof -
  let ?out = "''q1'' @ [tab] @ ''chr1'' @ [newline]"
  have h1: "check_output (example_env [] ?out)
      (megablast_command ''out/megablast_input.fasta'' example_args) example_world = Inr ?out"
    by (simp add: example_env_def)
  have p: "path_join ''out'' ''megablast_results.txt'' = ''out/megablast_results.txt''"
    by (simp add: path_join_def startswith_def)
  have h2: "path_join ''out'' ''megablast_results.txt'' \<notin> unwritable example_world"
    by (simp add: example_world_def)
  have s: "split ?out newline = [''q1'' @ [tab] @ ''chr1'', '''']" by simp
  from run_megablast_output [OF h1 h2] show ?thesis
    by (simp only: p s) simp
qed

text \<open>
  The claim as written fails on every output: for the output \<open>q1<tab>chr1<newline>\<close>
  the file holds that line and an empty line after it, one byte more than the tool
  printed.
\<close>

theorem run_megablast_output_counterexample:
  "check_output (example_env [] (''q1'' @ [tab] @ ''chr1'' @ [newline]))
      (megablast_command ''out/megablast_input.fasta'' example_args) example_world
     = Inr (''q1'' @ [tab] @ ''chr1'' @ [newline])
   \<and> files (snd (run_megablast (example_env [] (''q1'' @ [tab] @ ''chr1'' @ [newline]))
        example_world ''out/megablast_input.fasta'' ''out'' example_args))
        ''out/megablast_results.txt''
     = Some (''q1'' @ [tab] @ ''chr1'' @ [newline, newline])"
  by (simp add: run_megablast_def example_env_def path_join_def startswith_def print_to_def
      example_world_def)



subsection \<open>The Final Report Generator\<close>

text \<open>
  Claim C3.  When the report can be written and the intermediate file is there,
  \<open>generate_final_output\<close> writes to \<open>final_report.txt\<close>, for every record of the
  intermediate file and in the order of the file, the identifier, a tab, the residue
  string, a tab, the count of the identifier and a newline, and changes nothing else.
  The count is the mapping's value, and \<open>0\<close> for an identifier the mapping does not
  have.  When no identifier and no residue string holds a newline, the lines of the
  report are exactly these, one per record.
\<close>

theorem final_report_lines:
  assumes "path_join output_directory ''final_report.txt'' \<notin> unwritable w"
    and "files w sequence_file = Some content"
    and "sequence_file \<noteq> path_join output_directory ''final_report.txt''"
  shows "generate_final_output e w results sequence_file output_directory =
           (Inr (),
            w\<lparr>files := (files w)
                 (path_join output_directory ''final_report.txt'' \<mapsto>
                    concat (map (\<lambda>s. (seq_id s @ [tab] @ seq s @ [tab]
                                        @ str (counter_get results (seq_id s))) @ [newline])
                              (parse_fasta e content)))\<rparr>)
       \<and> (\<forall>s. results (seq_id s) = None \<longrightarrow> str (counter_get results (seq_id s)) = ''0'')
       \<and> (list_all (\<lambda>s. newline \<notin> set (seq_id s) \<and> newline \<notin> set (seq s))
             (parse_fasta e content) \<longrightarrow>
           split (concat (map (\<lambda>s. (seq_id s @ [tab] @ seq s @ [tab]
                                     @ str (counter_get results (seq_id s))) @ [newline])
                           (parse_fasta e content))) newline
           = map (\<lambda>s. seq_id s @ [tab] @ seq s @ [tab] @ str (counter_get results (seq_id s)))
               (parse_fasta e content) @ [[]])"
proof -
  let ?line = "\<lambda>s. seq_id s @ [tab] @ seq s @ [tab] @ str (counter_get results (seq_id s))"
  let ?rs = "parse_fasta e content"
  from assms have g: "generate_final_output e w results sequence_file output_directory =
      (Inr (), w\<lparr>files := (files w)
         (path_join output_directory ''final_report.txt'' \<mapsto>
            concat (map (\<lambda>s. ?line s @ [newline]) ?rs))\<rparr>)"
    by (simp add: generate_final_output_def Let_def report_loop_eq)
  have z: "str (counter_get results (seq_id s)) = ''0''" if "results (seq_id s) = None" for s
    using that by (simp add: counter_get_def str_0)
  have l: "split (concat (map (\<lambda>s. ?line s @ [newline]) ?rs)) newline = map ?line ?rs @ [[]]"
    if "list_all (\<lambda>s. newline \<notin> set (seq_id s) \<and> newline \<notin> set (seq s)) ?rs"
  proof -
    from that have "list_all (\<lambda>l. newline \<notin> set l) (map ?line ?rs)"
      by (simp add: list_all_iff str_no_newline)
    from split_lines [OF this] show ?thesis by (simp add: comp_def)
  qed
  from g z l show ?thesis by blast
qed

theorem final_report_lines_witness:
  "generate_final_output
     (example_env
        [\<lparr>seq_id = ''seq1_1'', seq_name = ''seq1'', description = ''seq1, window 1'',
          seq = ''ACT''\<rparr>,
         \<lparr>seq_id = ''seq1_2'', seq_name = ''seq1'', description = ''seq1, window 2'',
          seq = ''CTG''\<rparr>] [])
     example_world (Counter [''seq1_2'', ''seq1_2'']) ''in.fasta'' ''out''
   = (Inr (),
      example_world\<lparr>files := (files example_world)
        (''out/final_report.txt'' \<mapsto>
           ''seq1_1'' @ [tab] @ ''ACT'' @ [tab] @ ''0'' @ [newline]
           @ ''seq1_2'' @ [tab] @ ''CTG'' @ [tab] @ ''2'' @ [newline])\<rparr>)"
proof -
  let ?rs = "[\<lparr>seq_id = ''seq1_1'', seq_name = ''seq1'', description = ''seq1, window 1'',
          seq = ''ACT''\<rparr>,
         \<lparr>seq_id = ''seq1_2'', seq_name = ''seq1'', description = ''seq1, window 2'',
          seq = ''CTG''\<rparr>]"
  have p: "path_join ''out'' ''final_report.txt'' = ''out/final_report.txt''"
    by (simp add: path_join_def startswith_def)
  have h1: "path_join ''out'' ''final_report.txt'' \<notin> unwritable example_world"
    by (simp add: example_world_def)
  have h2: "files example_world ''in.fasta'' = Some (''>seq1'' @ [newline] @ ''ACTGAC'' @ [newline])"
    by (simp add: example_world_def)
  have h3: "''in.fasta'' \<noteq> path_join ''out'' ''final_report.txt''"
    by (simp add: p)
  have c1: "counter_get (Counter [''seq1_2'', ''seq1_2'']) ''seq1_1'' = 0"
    by (simp add: counter_get_Counter)
  have c2: "counter_get (Counter [''seq1_2'', ''seq1_2'']) ''seq1_2'' = 2"
    by (simp add: counter_get_Counter)
  have s2: "str 2 = ''2''" by code_simp
  have r: "parse_fasta (example_env ?rs []) (''>seq1'' @ [newline] @ ''ACTGAC'' @ [newline]) = ?rs"
    by (simp add: example_env_def)
  from final_report_lines [OF h1 h2 h3, of "example_env ?rs []" "Counter [''seq1_2'', ''seq1_2'']"]
  have "generate_final_output (example_env ?rs []) example_world
      (Counter [''seq1_2'', ''seq1_2'']) ''in.fasta'' ''out'' =
      (Inr (), example_world\<lparr>files := (files example_world)
         (path_join ''out'' ''final_report.txt'' \<mapsto>
            concat (map (\<lambda>s. (seq_id s @ [tab] @ seq s @ [tab]
                  @ str (counter_get (Counter [''seq1_2'', ''seq1_2'']) (seq_id s))) @ [newline])
              (parse_fasta (example_env ?rs [])
                 (''>seq1'' @ [newline] @ ''ACTGAC'' @ [newline]))))\<rparr>)"
    by blast
  then show ?thesis
    by (simp only: r p) (simp add: c1 c2 s2 str_0)
qed

end
